theory Spec2Isabelle
  imports Main "HOL-Library.AList"
begin

section \<open>JavaScript values and strings used by \<open>src/index.js\<close>\<close>

text \<open>
  Strings of the plugin are modelled as \<open>string\<close>. A property that may be absent
  (\<open>undefined\<close>) is an \<open>option\<close>. A string is falsy exactly when it is empty.
\<close>

definition truthy :: "string \<Rightarrow> bool" where
  "truthy s = (s \<noteq> [])"

text \<open>\<open>x || d\<close> for an optional string \<open>x\<close>: absent and empty values fall through to \<open>d\<close>.\<close>

definition or_else :: "string option \<Rightarrow> string \<Rightarrow> string" where
  "or_else x d = (case x of None \<Rightarrow> d | Some s \<Rightarrow> if truthy s then s else d)"

text \<open>
  \<open>String.prototype.split\<close> with a separator of one character: one piece more than
  there are separators, so the empty string gives one empty piece.
\<close>

fun split :: "char \<Rightarrow> string \<Rightarrow> string list" where
  "split c [] = [[]]"
| "split c (x # xs) =
     (if x = c then [] # split c xs
      else (case split c xs of [] \<Rightarrow> [[x]] | w # ws \<Rightarrow> (x # w) # ws))"

section \<open>Constants\<close>

definition DEFAULT_DOCKER_TAG :: string where
  "DEFAULT_DOCKER_TAG = ''latest''"

definition DEFAULT_DOCKER_IMAGE :: string where
  "DEFAULT_DOCKER_IMAGE = ''softprops/lambda-rust''"

definition RUST_RUNTIME :: string where
  "RUST_RUNTIME = ''rust''"

definition BASE_RUNTIME :: string where
  "BASE_RUNTIME = ''provided.al2''"

section \<open>The plugin's configuration\<close>

text \<open>\<open>this.custom\<close>: the defaults of the constructor merged with \<open>custom.rust\<close>.\<close>

record custom =
  cargoFlags :: string
  dockerTag :: string
  dockerImage :: string
  dockerless :: bool
  dockerPath :: "string option"
  cargoPackage :: "string option"
  profile :: "string option"

section \<open>\<open>dockerBuildArgs\<close>\<close>

definition defaultArgs :: "string \<Rightarrow> string \<Rightarrow> string \<Rightarrow> string list" where
  "defaultArgs srcPath cargoRegistry cargoDownloads =
     [''run'', ''--rm'', ''-t'', ''-e'',
      ''-v'', srcPath @ '':/code'',
      ''-v'', cargoRegistry @ '':/cargo/registry'',
      ''-v'', cargoDownloads @ '':/cargo/git'']"

text \<open>
  \<open>customArgs\<close> after line 85 and the push of lines 87 to 90: the pieces of
  \<open>SLS_DOCKER_ARGS\<close>, then the profile override when the profile is truthy.
\<close>

definition customArgs_profile :: "string option \<Rightarrow> (string \<rightharpoonup> string) \<Rightarrow> string list" where
  "customArgs_profile prof env =
     (let customArgs = split CHR '' '' (or_else (env ''SLS_DOCKER_ARGS'') '''')
      in (case prof of
            None \<Rightarrow> customArgs
          | Some p \<Rightarrow> if truthy p then customArgs @ [''-e'', ''PROFILE='' @ p] else customArgs))"

text \<open>
  The local \<open>cargoFlags\<close> after lines 86 and 91 to 97. \<open>cargoPackage != undefined\<close>
  holds for every string, the empty one too.
\<close>

definition flags :: "custom \<Rightarrow> string option \<Rightarrow> string" where
  "flags c pkg =
     (case pkg of
        None \<Rightarrow> cargoFlags c
      | Some p \<Rightarrow> if truthy (cargoFlags c) then cargoFlags c @ '' -p '' @ p else '' -p '' @ p)"

definition dockerBuildArgs ::
  "custom \<Rightarrow> string option \<Rightarrow> string option \<Rightarrow> string \<Rightarrow> string \<Rightarrow> string \<Rightarrow>
   (string \<rightharpoonup> string) \<Rightarrow> string list" where
  "dockerBuildArgs c pkg prof srcPath cargoRegistry cargoDownloads env =
     (let customArgs = customArgs_profile prof env;
          fl = flags c pkg;
          customArgs = (if truthy fl then customArgs @ [''-e'', ''CARGO_FLAGS='' @ fl]
                        else customArgs)
      in filter truthy
           (defaultArgs srcPath cargoRegistry cargoDownloads @ customArgs @
            [dockerTag c @ '':'' @ dockerImage c]))"

section \<open>\<open>includeInvokeHook\<close> and the hooks of the constructor\<close>

text \<open>
  \<open>parseInt\<close> with no radix argument, after ECMAScript: leading white space is skipped,
  a sign is read, the prefix \<open>0x\<close> or \<open>0X\<close> selects radix 16 and anything else radix
  10, and the longest prefix of digits of that radix is the number. No digit at all gives
  \<open>NaN\<close>, modelled as \<open>None\<close>. The result is an unbounded integer here, where the
  source has a double: the rounding of a double is monotone and leaves 1, 38 and 40 as
  they are, so the three comparisons of \<open>includeInvokeHook\<close> are not affected.
  Characters are the code units below 256.
\<close>

definition StrWhiteSpaceChar :: "char \<Rightarrow> bool" where
  "StrWhiteSpaceChar ch =
     (let n = (of_char ch :: nat) in (9 \<le> n \<and> n \<le> 13) \<or> n = 32 \<or> n = 160)"

definition digit_value :: "nat \<Rightarrow> char \<Rightarrow> nat option" where
  "digit_value radix ch =
     (let n = (of_char ch :: nat);
          v = (if 48 \<le> n \<and> n \<le> 57 then Some (n - 48)
               else if 97 \<le> n \<and> n \<le> 122 then Some (n - 87)
               else if 65 \<le> n \<and> n \<le> 90 then Some (n - 55)
               else None)
      in (case v of None \<Rightarrow> None | Some d \<Rightarrow> if d < radix then Some d else None))"

fun digits_prefix :: "nat \<Rightarrow> string \<Rightarrow> nat list" where
  "digits_prefix radix [] = []"
| "digits_prefix radix (ch # cs) =
     (case digit_value radix ch of
        None \<Rightarrow> []
      | Some d \<Rightarrow> d # digits_prefix radix cs)"

definition number_of_digits :: "nat \<Rightarrow> nat list \<Rightarrow> nat" where
  "number_of_digits radix ds = foldl (\<lambda>a d. a * radix + d) 0 ds"

definition parseInt :: "string \<Rightarrow> int option" where
  "parseInt inputString =
     (let S = dropWhile StrWhiteSpaceChar inputString;
          sign = (if take 1 S = ''-'' then - 1 else 1 :: int);
          S = (if take 1 S = ''+'' \<or> take 1 S = ''-'' then drop 1 S else S);
          hex = (take 2 S = ''0x'' \<or> take 2 S = ''0X'');
          R = (if hex then 16 else 10);
          S = (if hex then drop 2 S else S);
          Z = digits_prefix R S
      in if Z = [] then None else Some (sign * int (number_of_digits R Z)))"

text \<open>\<open>ToString\<close> of a value that is a string or \<open>undefined\<close>.\<close>

definition ToString :: "string option \<Rightarrow> string" where
  "ToString v = (case v of None \<Rightarrow> ''undefined'' | Some s \<Rightarrow> s)"

text \<open>An array element read by destructuring: \<open>undefined\<close> beyond the end.\<close>

fun element :: "'a list \<Rightarrow> nat \<Rightarrow> 'a option" where
  "element [] i = None"
| "element (x # xs) 0 = Some x"
| "element (x # xs) (Suc i) = element xs i"

definition includeInvokeHook :: "string \<Rightarrow> bool" where
  "includeInvokeHook serverlessVersion =
     (let parts = split CHR ''.'' serverlessVersion;
          major = element parts 0;
          minor = element parts 1;
          majorVersion = parseInt (ToString major);
          minorVersion = parseInt (ToString minor)
      in majorVersion = Some 1 \<and>
         (case minorVersion of None \<Rightarrow> False | Some m \<Rightarrow> 38 \<le> m \<and> m < 40))"

text \<open>
  The keys of \<open>this.hooks\<close> after the constructor, in insertion order. Every key is
  bound to \<open>build\<close>.
\<close>

definition hooks :: "string \<Rightarrow> string list" where
  "hooks version =
     [''before:package:createDeploymentArtifacts'',
      ''before:deploy:function:packageFunction'',
      ''before:offline:start'',
      ''before:offline:start:init''] @
     (if includeInvokeHook version then [''before:invoke:local:invoke''] else [])"

text \<open>
  The reading of a version component that the claims speak of: a run of decimal digits
  and its value.
\<close>

definition is_decimal :: "char \<Rightarrow> bool" where
  "is_decimal ch = (48 \<le> (of_char ch :: nat) \<and> (of_char ch :: nat) \<le> 57)"

definition decimal :: "string \<Rightarrow> nat" where
  "decimal s = foldl (\<lambda>a ch. a * 10 + ((of_char ch :: nat) - 48)) 0 s"

section \<open>The host's objects\<close>

text \<open>
  A function of the service: its own \<open>runtime\<close>, which may be absent, and its
  \<open>package\<close> object, of which the plugin touches the \<open>artifact\<close> property only.
\<close>

record package =
  artifact :: "string option"

record func =
  func_runtime :: "string option"
  func_package :: "package option"

record provider =
  provider_name :: string
  provider_runtime :: "string option"

text \<open>
  \<open>serverless.service\<close>: the provider and the declared functions, by name, in
  declaration order.
\<close>

record service =
  provider :: provider
  service_functions :: "(string \<times> func) list"

definition getAllFunctions :: "service \<Rightarrow> string list" where
  "getAllFunctions s = map fst (service_functions s)"

text \<open>
  \<open>service.getFunction\<close> belongs to the host. For a name that is not declared the
  result is \<open>None\<close>; the callers below turn that into a raised error, since the host
  raises or else the property read on \<open>undefined\<close> does.
\<close>

definition getFunction :: "service \<Rightarrow> string \<Rightarrow> func option" where
  "getFunction s funcName = map_of (service_functions s) funcName"

text \<open>The write through the reference that \<open>getFunction\<close> returned.\<close>

definition setFunction :: "service \<Rightarrow> string \<Rightarrow> func \<Rightarrow> service" where
  "setFunction s funcName f =
     s\<lparr>service_functions := AList.update funcName f (service_functions s)\<rparr>"

text \<open>What \<open>spawnSync\<close> returns: \<open>error\<close> is an \<open>Error\<close> object or absent, \<open>status\<close>
  is the exit status or \<open>null\<close>.\<close>

record spawn_error =
  error_name :: string
  error_message :: string

record spawn_result =
  error :: "spawn_error option"
  status :: "int option"

text \<open>Values a global binding may hold.\<close>

datatype jsval = JUndefined | JNull | JBool bool | JStr string

text \<open>
  What the plugin reads from its surroundings: the process environment, the home
  directory, the global bindings that a free identifier of the module resolves to,
  \<open>path.join\<close> of Node's library, and the answer of the subprocess to a command line.
\<close>

record world =
  env :: "string \<rightharpoonup> string"
  homedir :: string
  globals :: "string \<rightharpoonup> jsval"
  path_join :: "string list \<Rightarrow> string"
  spawnSync :: "string \<Rightarrow> string list \<Rightarrow> spawn_result"

text \<open>The plugin object after its constructor.\<close>

record plugin =
  custom :: custom
  srcPath :: string
  options_function :: "string option"

text \<open>
  What \<open>build\<close> can change: the service, the lines given to \<open>serverless.cli.log\<close>
  and the subprocesses spawned so far, each with its executable and arguments.
\<close>

record state =
  service :: service
  cli_log :: "string list"
  spawned :: "(string \<times> string list) list"

datatype exn =
    Error string
  | ReferenceError string
  | FunctionNotFound string

section \<open>String conversions\<close>

fun show_nat :: "nat \<Rightarrow> string" where
  "show_nat n =
     (if n < 10 then [char_of (48 + n)]
      else show_nat (n div 10) @ [char_of (48 + n mod 10)])"

declare show_nat.simps [simp del]

definition show_int :: "int \<Rightarrow> string" where
  "show_int i = (if i < 0 then ''-'' @ show_nat (nat (- i)) else show_nat (nat i))"

text \<open>\<open>Error.prototype.toString\<close>.\<close>

definition error_toString :: "spawn_error \<Rightarrow> string" where
  "error_toString e =
     (if error_name e = [] then error_message e
      else if error_message e = [] then error_name e
      else error_name e @ '': '' @ error_message e)"

text \<open>\<open>res.error\<close> and \<open>res.status\<close> inside a template literal.\<close>

definition template_error :: "spawn_error option \<Rightarrow> string" where
  "template_error e = (case e of None \<Rightarrow> ''undefined'' | Some x \<Rightarrow> error_toString x)"

definition template_status :: "int option \<Rightarrow> string" where
  "template_status n = (case n of None \<Rightarrow> ''null'' | Some i \<Rightarrow> show_int i)"

definition template_jsval :: "jsval \<Rightarrow> string" where
  "template_jsval v =
     (case v of
        JUndefined \<Rightarrow> ''undefined''
      | JNull \<Rightarrow> ''null''
      | JBool b \<Rightarrow> (if b then ''true'' else ''false'')
      | JStr x \<Rightarrow> x)"

section \<open>\<open>dockerBuild\<close>, \<open>functions()\<close> and \<open>build\<close>\<close>

text \<open>
  \<open>dockerBuild\<close> (lines 110 to 128): the command line is assembled, the line is logged,
  the subprocess is spawned and its answer returned.
\<close>

definition dockerBuild ::
  "plugin \<Rightarrow> world \<Rightarrow> string option \<Rightarrow> string option \<Rightarrow> state \<Rightarrow> spawn_result \<times> state" where
  "dockerBuild p w pkg prof st =
     (let cargoHome = or_else (env w ''CARGO_HOME'') (path_join w [homedir w, ''.cargo'']);
          cargoRegistry = path_join w [cargoHome, ''registry''];
          cargoDownloads = path_join w [cargoHome, ''git''];
          dockerCLI = or_else (env w ''SLS_DOCKER_CLI'') ''docker'';
          args = dockerBuildArgs (custom p) pkg prof (srcPath p)
                   cargoRegistry cargoDownloads (env w);
          st = st\<lparr>cli_log := cli_log st @ [''Running containerized build'']\<rparr>
      in (spawnSync w dockerCLI args, st\<lparr>spawned := spawned st @ [(dockerCLI, args)]\<rparr>))"

text \<open>
  The method \<open>functions()\<close> (lines 130 to 136); \<open>functions\<close> alone is a reserved
  word here. An empty \<open>options.function\<close> is falsy and selects all functions.
\<close>

definition plugin_functions :: "plugin \<Rightarrow> service \<Rightarrow> string list" where
  "plugin_functions p s =
     (case options_function p of
        None \<Rightarrow> getAllFunctions s
      | Some f \<Rightarrow> if truthy f then [f] else getAllFunctions s)"

text \<open>\<open>func.runtime || service.provider.runtime\<close>.\<close>

definition effective_runtime :: "func \<Rightarrow> service \<Rightarrow> string option" where
  "effective_runtime f s =
     (case func_runtime f of
        None \<Rightarrow> provider_runtime (provider s)
      | Some r \<Rightarrow> if truthy r then Some r else provider_runtime (provider s))"

text \<open>The first loop of \<open>build\<close> (lines 144 to 153), with the flag as accumulator.\<close>

fun rustFunctionsFound :: "service \<Rightarrow> string list \<Rightarrow> bool \<Rightarrow> exn + bool" where
  "rustFunctionsFound s [] found = Inr found"
| "rustFunctionsFound s (funcName # names) found =
     (case getFunction s funcName of
        None \<Rightarrow> Inl (FunctionNotFound funcName)
      | Some f \<Rightarrow>
          if effective_runtime f s \<noteq> Some RUST_RUNTIME
          then rustFunctionsFound s names found
          else rustFunctionsFound s names True)"

definition no_rust_message :: string where
  "no_rust_message =
     ''Error: no Rust functions found. '' @
     ''Use '' @ [CHR 0x27] @ ''runtime: '' @ RUST_RUNTIME @ [CHR 0x27] @ '' in global or '' @
     ''function configuration to use this plugin.''"

text \<open>The test of line 163: \<open>null > 0\<close> is false.\<close>

definition build_failed :: "spawn_result \<Rightarrow> bool" where
  "build_failed res =
     (case error res of
        Some e \<Rightarrow> True
      | None \<Rightarrow> (case status res of None \<Rightarrow> False | Some n \<Rightarrow> n > 0))"

text \<open>
  The path of lines 181 to 185. The identifiers \<open>profile\<close> and \<open>binary\<close> are
  declared neither in the callback, nor in \<open>build\<close>, nor in the module, so each is read
  from the global bindings, and reading an unbound identifier raises a
  \<open>ReferenceError\<close>. The arguments of \<open>path.join\<close> are evaluated from left to right.
\<close>

definition artifactPath :: "plugin \<Rightarrow> world \<Rightarrow> exn + string" where
  "artifactPath p w =
     (case globals w ''profile'' of
        None \<Rightarrow> Inl (ReferenceError ''profile is not defined'')
      | Some prof \<Rightarrow>
          (case globals w ''binary'' of
             None \<Rightarrow> Inl (ReferenceError ''binary is not defined'')
           | Some binary \<Rightarrow>
               Inr (path_join w
                      [srcPath p,
                       ''target/lambda/'' @ (if JStr ''dev'' = prof then ''debug'' else ''release''),
                       template_jsval binary @ ''.zip''])))"

text \<open>What lines 186 to 192 do to the function object.\<close>

definition rewrite_func :: "string \<Rightarrow> func \<Rightarrow> func" where
  "rewrite_func path f =
     (let pkg = (case func_package f of None \<Rightarrow> \<lparr>artifact = None\<rparr> | Some k \<Rightarrow> k);
          f = f\<lparr>func_package := Some (pkg\<lparr>artifact := Some path\<rparr>)\<rparr>
      in if func_runtime f = Some RUST_RUNTIME
         then f\<lparr>func_runtime := Some BASE_RUNTIME\<rparr> else f)"

text \<open>
  The second loop of \<open>build\<close> (lines 170 to 193). The path is computed before
  \<open>func.package\<close> is touched, so an error there leaves the function as it was.
\<close>

fun rewrite :: "plugin \<Rightarrow> world \<Rightarrow> string list \<Rightarrow> service \<Rightarrow> exn option \<times> service" where
  "rewrite p w [] s = (None, s)"
| "rewrite p w (funcName # names) s =
     (case getFunction s funcName of
        None \<Rightarrow> (Some (FunctionNotFound funcName), s)
      | Some f \<Rightarrow>
          (case artifactPath p w of
             Inl e \<Rightarrow> (Some e, s)
           | Inr path \<Rightarrow> rewrite p w names (setFunction s funcName (rewrite_func path f))))"

text \<open>
  The entry point (lines 139 to 197). The first component is the exception thrown, or
  \<open>None\<close> when \<open>build\<close> returns; the second is the state it leaves behind.
\<close>

definition build :: "plugin \<Rightarrow> world \<Rightarrow> state \<Rightarrow> exn option \<times> state" where
  "build p w st =
     (if provider_name (provider (service st)) \<noteq> ''aws'' then (None, st)
      else
        (case rustFunctionsFound (service st) (plugin_functions p (service st)) False of
           Inl e \<Rightarrow> (Some e, st)
         | Inr found \<Rightarrow>
             if \<not> found then (Some (Error no_rust_message), st)
             else
               (let (res, st) = dockerBuild p w (cargoPackage (custom p)) (profile (custom p)) st
                in if build_failed res
                   then (Some (Error (case error res of None \<Rightarrow> [] | Some e \<Rightarrow> error_toString e)),
                         st\<lparr>cli_log := cli_log st @
                              [''Rust build encountered an error: '' @ template_error (error res) @
                               '' '' @ template_status (status res) @ ''.'']\<rparr>)
                   else
                     (case rewrite p w (plugin_functions p (service st)) (service st) of
                        (Some e, s) \<Rightarrow> (Some e, st\<lparr>service := s\<rparr>)
                      | (None, s) \<Rightarrow>
                          (None,
                           st\<lparr>service :=
                                (if provider_runtime (provider s) = Some RUST_RUNTIME
                                 then s\<lparr>provider := (provider s)\<lparr>provider_runtime := Some BASE_RUNTIME\<rparr>\<rparr>
                                 else s)\<rparr>)))))"

section \<open>Notions used by the statements\<close>

text \<open>A name in scope is declared when the host knows a function of that name.\<close>

definition declared :: "service \<Rightarrow> string \<Rightarrow> bool" where
  "declared s funcName = (getFunction s funcName \<noteq> None)"

text \<open>A unit matches when its effective runtime is the handled identifier.\<close>

definition matched :: "service \<Rightarrow> string \<Rightarrow> bool" where
  "matched s funcName =
     (case getFunction s funcName of
        None \<Rightarrow> False
      | Some f \<Rightarrow> effective_runtime f s = Some RUST_RUNTIME)"

text \<open>The \<open>res\<close> of line 162: what the subprocess answers to the command line of \<open>build\<close>.\<close>

definition build_result :: "plugin \<Rightarrow> world \<Rightarrow> state \<Rightarrow> spawn_result" where
  "build_result p w st = fst (dockerBuild p w (cargoPackage (custom p)) (profile (custom p)) st)"

section \<open>Sample inputs\<close>

text \<open>The defaults that the constructor merges \<open>custom.rust\<close> onto (lines 41 to 47).\<close>

definition default_custom :: custom where
  "default_custom =
     \<lparr>cargoFlags = [], dockerTag = DEFAULT_DOCKER_TAG, dockerImage = DEFAULT_DOCKER_IMAGE,
      dockerless = False, dockerPath = None, cargoPackage = None, profile = None\<rparr>"

text \<open>
  A \<open>path.join\<close> for the examples: segments joined by a slash, which is what Node
  returns for normalised, non-empty segments.
\<close>

definition join_slash :: "string list \<Rightarrow> string" where
  "join_slash segs = (case segs of [] \<Rightarrow> ''.'' | x # xs \<Rightarrow> foldl (\<lambda>a b. a @ ''/'' @ b) x xs)"

text \<open>
  A Node process with an empty environment whose global object binds neither
  \<open>profile\<close> nor \<open>binary\<close>, and whose subprocess always answers \<open>res\<close>.
\<close>

definition node_world :: "spawn_result \<Rightarrow> world" where
  "node_world res =
     \<lparr>env = Map.empty, homedir = ''/home/user'', globals = Map.empty,
      path_join = join_slash, spawnSync = (\<lambda>cli args. res)\<rparr>"

definition exit_status :: "int \<Rightarrow> spawn_result" where
  "exit_status n = \<lparr>error = None, status = Some n\<rparr>"

definition plugin_of :: "custom \<Rightarrow> plugin" where
  "plugin_of c = \<lparr>custom = c, srcPath = ''/srv/app'', options_function = None\<rparr>"

text \<open>
  A service on \<open>aws\<close> whose default runtime is \<open>rust\<close>, with one function that
  declares \<open>rust\<close> itself and one that declares another runtime.
\<close>

definition rust_service :: service where
  "rust_service =
     \<lparr>provider = \<lparr>provider_name = ''aws'', provider_runtime = Some ''rust''\<rparr>,
      service_functions =
        [(''hello'', \<lparr>func_runtime = Some ''rust'', func_package = None\<rparr>),
         (''web'', \<lparr>func_runtime = Some ''nodejs18.x'', func_package = None\<rparr>)]\<rparr>"

text \<open>The same service on another provider.\<close>

definition azure_service :: service where
  "azure_service = rust_service\<lparr>provider := \<lparr>provider_name = ''azure'', provider_runtime = Some ''rust''\<rparr>\<rparr>"

text \<open>A service on \<open>aws\<close> in which nothing declares \<open>rust\<close>.\<close>

definition node_service :: service where
  "node_service =
     \<lparr>provider = \<lparr>provider_name = ''aws'', provider_runtime = Some ''nodejs18.x''\<rparr>,
      service_functions =
        [(''web'', \<lparr>func_runtime = None, func_package = None\<rparr>),
         (''api'', \<lparr>func_runtime = Some ''python3.9'', func_package = None\<rparr>)]\<rparr>"

definition initial :: "service \<Rightarrow> state" where
  "initial s = \<lparr>service = s, cli_log = [], spawned = []\<rparr>"

text \<open>Whether one string occurs inside another.\<close>

fun starts_with :: "string \<Rightarrow> string \<Rightarrow> bool" where
  "starts_with [] s = True"
| "starts_with (x # xs) [] = False"
| "starts_with (x # xs) (y # ys) = (x = y \<and> starts_with xs ys)"

fun contains :: "string \<Rightarrow> string \<Rightarrow> bool" where
  "contains s [] = (s = [])"
| "contains s (y # ys) = (starts_with s (y # ys) \<or> contains s ys)"

section \<open>The argument assembler\<close>

lemma split_nonempty: "split c s \<noteq> []"
  by (induction s) (auto split: list.splits)

text \<open>
  The closed form of the result: the image reference is never empty, so the final
  \<open>filter\<close> keeps it, in last position.
\<close>

lemma dockerBuildArgs_shape:
  "dockerBuildArgs c pkg prof src registry downloads ev =
     filter truthy
       (defaultArgs src registry downloads @ customArgs_profile prof ev) @
     (if flags c pkg \<noteq> [] then [''-e'', ''CARGO_FLAGS='' @ flags c pkg] else []) @
     [dockerTag c @ '':'' @ dockerImage c]"
  by (simp add: dockerBuildArgs_def Let_def truthy_def)

text \<open>
  C8. For every configuration and environment the returned argument sequence ends with
  the image reference \<open>dockerTag:dockerImage\<close>, written in that order, and none of its
  entries is empty.
\<close>

theorem dockerBuildArgs_last_and_truthy:
  "dockerBuildArgs c pkg prof src registry downloads ev \<noteq> [] \<and>
   last (dockerBuildArgs c pkg prof src registry downloads ev)
     = dockerTag c @ '':'' @ dockerImage c \<and>
   list_all truthy (dockerBuildArgs c pkg prof src registry downloads ev)"
proof (intro conjI)
  show "dockerBuildArgs c pkg prof src registry downloads ev \<noteq> []"
    by (simp add: dockerBuildArgs_shape)
  show "last (dockerBuildArgs c pkg prof src registry downloads ev)
          = dockerTag c @ '':'' @ dockerImage c"
    by (simp add: dockerBuildArgs_shape)
  show "list_all truthy (dockerBuildArgs c pkg prof src registry downloads ev)"
    by (auto simp: dockerBuildArgs_def Let_def list_all_iff)
qed

text \<open>
  C4. With a package selected, the assembled flags are \<open>'' -p '' @ package\<close> when the
  configured \<open>cargoFlags\<close> is empty and \<open>cargoFlags @ '' -p '' @ package\<close> otherwise.
  The pair \<open>-e\<close>, \<open>CARGO_FLAGS=flags\<close> is appended, directly before the image
  reference, when the assembled flags are not empty, and nothing is appended there when
  they are empty.
\<close>

theorem dockerBuildArgs_cargo_flags:
  "(if cargoFlags c = [] then flags c (Some p) = '' -p '' @ p
    else flags c (Some p) = cargoFlags c @ '' -p '' @ p) \<and>
   (if flags c pkg \<noteq> []
    then dockerBuildArgs c pkg prof src registry downloads ev =
           filter truthy
             (defaultArgs src registry downloads @ customArgs_profile prof ev) @
           [''-e'', ''CARGO_FLAGS='' @ flags c pkg] @
           [dockerTag c @ '':'' @ dockerImage c]
    else dockerBuildArgs c pkg prof src registry downloads ev =
           filter truthy
             (defaultArgs src registry downloads @ customArgs_profile prof ev) @
           [dockerTag c @ '':'' @ dockerImage c])"
  by (simp add: dockerBuildArgs_shape flags_def truthy_def)

section \<open>The version gate\<close>

lemma split_append_sep: "c \<notin> set a \<Longrightarrow> split c (a @ c # b) = a # split c b"
  by (induction a) auto

lemma split_append_piece:
  "c \<notin> set a \<Longrightarrow> \<exists>ws. split c (a @ b) = (a @ takeWhile (\<lambda>x. x \<noteq> c) b) # ws"
proof (induction a)
  case Nil
  show ?case by (induction b) (auto split: list.splits)
next
  case (Cons x a)
  then show ?case by auto
qed

lemma is_decimal_digit_value: "is_decimal ch \<Longrightarrow> digit_value 10 ch = Some (of_char ch - 48)"
  by (auto simp: is_decimal_def digit_value_def Let_def)

lemma not_decimal_digit_value: "\<not> is_decimal ch \<Longrightarrow> digit_value 10 ch = None"
  by (auto simp: is_decimal_def digit_value_def Let_def)

lemma digits_prefix_decimal:
  "list_all is_decimal ds \<Longrightarrow> (case rest of [] \<Rightarrow> True | ch # _ \<Rightarrow> \<not> is_decimal ch) \<Longrightarrow>
   digits_prefix 10 (ds @ rest) = map (\<lambda>ch. of_char ch - 48) ds"
proof (induction ds)
  case Nil
  then show ?case by (cases rest) (auto simp: not_decimal_digit_value)
next
  case (Cons d ds)
  then show ?case by (simp add: is_decimal_digit_value)
qed

lemma number_of_digits_decimal:
  "foldl (\<lambda>a d. a * 10 + d) n (map (\<lambda>ch. (of_char ch :: nat) - 48) ds)
     = foldl (\<lambda>a ch. a * 10 + ((of_char ch :: nat) - 48)) n ds"
  by (induction ds arbitrary: n) auto

lemma is_decimal_not_special:
  "is_decimal ch \<Longrightarrow> \<not> StrWhiteSpaceChar ch \<and> ch \<noteq> CHR ''-'' \<and> ch \<noteq> CHR ''+'' \<and>
     ch \<noteq> CHR ''x'' \<and> ch \<noteq> CHR ''X'' \<and> ch \<noteq> CHR ''.''"
  by (auto simp: is_decimal_def StrWhiteSpaceChar_def Let_def)

lemma parseInt_decimal:
  assumes ne: "ds \<noteq> []" and dec: "list_all is_decimal ds"
    and rest: "case rest of [] \<Rightarrow> True
             | ch # _ \<Rightarrow> \<not> is_decimal ch \<and> \<not> (ds = ''0'' \<and> (ch = CHR ''x'' \<or> ch = CHR ''X''))"
  shows "parseInt (ds @ rest) = Some (int (decimal ds))"
proof -
  obtain d ds' where ds: "ds = d # ds'" using ne by (cases ds) auto
  have d: "is_decimal d" using dec ds by simp
  note sp = is_decimal_not_special[OF d]
  have nohex: "take 2 (ds @ rest) \<noteq> ''0x'' \<and> take 2 (ds @ rest) \<noteq> ''0X''"
  proof (cases ds')
    case Nil
    then show ?thesis using rest ds by (cases rest) auto
  next
    case (Cons e es)
    then have "is_decimal e" using dec ds by simp
    then show ?thesis using ds Cons is_decimal_not_special[of e] by auto
  qed
  have rest1: "case rest of [] \<Rightarrow> True | ch # _ \<Rightarrow> \<not> is_decimal ch"
    using rest by (cases rest) auto
  have Z: "digits_prefix 10 (ds @ rest) = map (\<lambda>ch. of_char ch - 48) ds"
    using digits_prefix_decimal[OF dec rest1] .
  have S: "dropWhile StrWhiteSpaceChar (ds @ rest) = ds @ rest"
    using sp ds by simp
  have t1: "take 1 (ds @ rest) = [d]" using ds by simp
  have sg: "([d] = ''+'') = False" "([d] = ''-'') = False"
    using sp by auto
  have hx: "(take 2 (ds @ rest) = ''0x'' \<or> take 2 (ds @ rest) = ''0X'') = False"
    using nohex by simp
  have nz: "(map (\<lambda>ch. (of_char ch :: nat) - 48) ds = []) = False"
    using ne by simp
  show ?thesis
    apply (simp only: parseInt_def Let_def S)
    apply (simp only: t1)
    apply (simp only: sg if_False simp_thms)
    apply (simp only: hx if_False)
    apply (simp only: Z nz if_False)
    apply (simp add: number_of_digits_def decimal_def number_of_digits_decimal)
    done
qed


lemma includeInvokeHook_decimal:
  assumes maj: "maj \<noteq> []" "list_all is_decimal maj"
    and mnr: "mnr \<noteq> []" "list_all is_decimal mnr"
    and rest: "case rest of [] \<Rightarrow> True
               | ch # _ \<Rightarrow> \<not> is_decimal ch \<and> \<not> (mnr = ''0'' \<and> (ch = CHR ''x'' \<or> ch = CHR ''X''))"
  shows "includeInvokeHook (maj @ ''.'' @ mnr @ rest)
           = (decimal maj = 1 \<and> 38 \<le> decimal mnr \<and> decimal mnr < 40)"
proof -
  have nodot: "CHR ''.'' \<notin> set maj" "CHR ''.'' \<notin> set mnr"
    using maj(2) mnr(2) is_decimal_not_special by (auto simp: list_all_iff)
  let ?piece = "mnr @ takeWhile (\<lambda>x. x \<noteq> CHR ''.'') rest"
  obtain ws where ws: "split CHR ''.'' (mnr @ rest) = ?piece # ws"
    using split_append_piece[OF nodot(2)] by blast
  have parts: "split CHR ''.'' (maj @ ''.'' @ mnr @ rest) = maj # ?piece # ws"
    using split_append_sep[OF nodot(1), of "mnr @ rest"] ws by simp
  have tw: "case takeWhile (\<lambda>x. x \<noteq> CHR ''.'') rest of [] \<Rightarrow> True
            | ch # _ \<Rightarrow> \<not> is_decimal ch \<and> \<not> (mnr = ''0'' \<and> (ch = CHR ''x'' \<or> ch = CHR ''X''))"
    using rest by (cases rest) auto
  have pmaj: "parseInt maj = Some (int (decimal maj))"
    using parseInt_decimal[OF maj, of "[]"] by simp
  have pmnr: "parseInt ?piece = Some (int (decimal mnr))"
    using parseInt_decimal[OF mnr tw] .
  show ?thesis
    unfolding includeInvokeHook_def Let_def parts
    by (simp add: ToString_def pmaj pmnr)
qed

text \<open>
  C9. For a version string that starts with a run of decimal digits, a dot and a second
  run of decimal digits, and goes on with anything that is not a digit (and not the
  \<open>x\<close> of a hexadecimal prefix after a lone \<open>0\<close>), the hook
  \<open>before:invoke:local:invoke\<close> is registered exactly when the major number is 1 and
  the minor number is at least 38 and below 40.
\<close>

theorem invoke_hook_version_gate:
  assumes "maj \<noteq> []" and "list_all is_decimal maj"
    and "mnr \<noteq> []" and "list_all is_decimal mnr"
    and "case rest of [] \<Rightarrow> True
         | ch # _ \<Rightarrow> \<not> is_decimal ch \<and> \<not> (mnr = ''0'' \<and> (ch = CHR ''x'' \<or> ch = CHR ''X''))"
  shows "(''before:invoke:local:invoke'' \<in> set (hooks (maj @ ''.'' @ mnr @ rest)))
           = (decimal maj = 1 \<and> 38 \<le> decimal mnr \<and> decimal mnr < 40)"
  using includeInvokeHook_decimal[OF assms] by (simp add: hooks_def)

theorem invoke_hook_version_gate_witness:
  "''before:invoke:local:invoke'' \<in> set (hooks ''1.38.0'') \<and>
   ''before:invoke:local:invoke'' \<notin> set (hooks ''1.40.2'') \<and>
   ''before:invoke:local:invoke'' \<notin> set (hooks ''2.38.0'')"
  using invoke_hook_version_gate[of "''1''" "''38''" "''.0''"]
        invoke_hook_version_gate[of "''1''" "''40''" "''.2''"]
        invoke_hook_version_gate[of "''2''" "''38''" "''.0''"]
  by (simp add: is_decimal_def decimal_def)

section \<open>The build entry point\<close>

lemma rustFunctionsFound_declared:
  "list_all (declared s) names \<Longrightarrow>
   rustFunctionsFound s names found = Inr (found \<or> list_ex (matched s) names)"
  by (induction names arbitrary: found) (auto simp: declared_def matched_def)

lemma dockerBuild_service [simp]:
  "service (snd (dockerBuild p w pkg prof st)) = service st"
  by (simp add: dockerBuild_def Let_def)

lemma dockerBuild_cli_log [simp]:
  "cli_log (snd (dockerBuild p w pkg prof st)) = cli_log st @ [''Running containerized build'']"
  by (simp add: dockerBuild_def Let_def)

lemma dockerBuild_spawned:
  "\<exists>cli args. spawned (snd (dockerBuild p w pkg prof st)) = spawned st @ [(cli, args)]"
  by (simp add: dockerBuild_def Let_def)

text \<open>
  C7. When the provider's name is not \<open>aws\<close>, \<open>build\<close> returns at once: nothing is
  thrown, and the state is the one it started from, so no subprocess was spawned, nothing
  was logged and neither a unit nor the provider was changed.
\<close>

theorem build_other_provider_noop:
  "provider_name (provider (service st)) \<noteq> ''aws'' \<Longrightarrow> build p w st = (None, st)"
  by (simp add: build_def)

text \<open>
  With no matching unit in scope \<open>build\<close> always throws and leaves the whole state as
  it was, whether or not the names in scope are declared; a name that is not declared
  only changes which error it is.
\<close>

lemma rustFunctionsFound_no_match:
  "\<not> list_ex (matched s) names \<Longrightarrow>
   rustFunctionsFound s names False = Inr False \<or>
   (\<exists>n. rustFunctionsFound s names False = Inl (FunctionNotFound n))"
  by (induction names) (auto simp: matched_def split: option.splits)

lemma build_no_match_state:
  assumes "provider_name (provider (service st)) = ''aws''"
    and "\<not> list_ex (matched (service st)) (plugin_functions p (service st))"
  shows "fst (build p w st) \<noteq> None \<and> snd (build p w st) = st"
  using rustFunctionsFound_no_match[OF assms(2)] assms(1)
  by (auto simp: build_def)

text \<open>
  C3. On \<open>aws\<close>, when every name in scope is a declared function and none of them has
  the effective runtime \<open>rust\<close>, \<open>build\<close> throws the error whose message contains the
  runtime identifier, and the state is unchanged: no subprocess was spawned.
\<close>

theorem build_no_rust_functions:
  assumes "provider_name (provider (service st)) = ''aws''"
    and "list_all (declared (service st)) (plugin_functions p (service st))"
    and "\<not> list_ex (matched (service st)) (plugin_functions p (service st))"
  shows "build p w st = (Some (Error no_rust_message), st) \<and>
         contains RUST_RUNTIME no_rust_message"
proof -
  have "rustFunctionsFound (service st) (plugin_functions p (service st)) False = Inr False"
    using rustFunctionsFound_declared[OF assms(2), of False] assms(3) by simp
  then have "build p w st = (Some (Error no_rust_message), st)"
    using assms(1) by (simp add: build_def)
  moreover have "contains RUST_RUNTIME no_rust_message"
    by (simp add: RUST_RUNTIME_def no_rust_message_def)
  ultimately show ?thesis by simp
qed

lemma build_failed_result:
  assumes "provider_name (provider (service st)) = ''aws''"
    and "list_all (declared (service st)) (plugin_functions p (service st))"
    and "list_ex (matched (service st)) (plugin_functions p (service st))"
    and "build_failed (build_result p w st)"
    and "st1 = snd (dockerBuild p w (cargoPackage (custom p)) (profile (custom p)) st)"
  shows "build p w st =
     (Some (Error (case error (build_result p w st) of None \<Rightarrow> [] | Some e \<Rightarrow> error_toString e)),
      st1\<lparr>cli_log := cli_log st1 @
          [''Rust build encountered an error: '' @ template_error (error (build_result p w st)) @
           '' '' @ template_status (status (build_result p w st)) @ ''.'']\<rparr>)"
proof -
  have found: "rustFunctionsFound (service st) (plugin_functions p (service st)) False = Inr True"
    using rustFunctionsFound_declared[OF assms(2), of False] assms(3) by simp
  have db: "dockerBuild p w (cargoPackage (custom p)) (profile (custom p)) st
              = (build_result p w st, st1)"
    using assms(5) by (simp add: build_result_def)
  show ?thesis
    using assms(1,4) by (simp add: build_def found db)
qed

text \<open>
  C2. When the subprocess of \<open>build\<close> reports a spawn error or an exit status above
  zero, \<open>build\<close> throws, and the service is the one it started from: no artifact, no
  runtime of a unit and not the default runtime of the provider has changed.
\<close>

theorem build_failure_no_mutation:
  assumes "provider_name (provider (service st)) = ''aws''"
    and "list_all (declared (service st)) (plugin_functions p (service st))"
    and "list_ex (matched (service st)) (plugin_functions p (service st))"
    and "build_failed (build_result p w st)"
  shows "fst (build p w st) \<noteq> None \<and> service (snd (build p w st)) = service st"
  unfolding build_failed_result[OF assms refl] by simp

text \<open>
  C6, as amended. When the subprocess fails, the line logged before the throw carries
  both the spawn error (\<open>undefined\<close> when there is none) and the exit status. The
  message of the thrown error is the string of the spawn error when there is one and is
  empty otherwise; the exit status is not part of it.
\<close>

theorem build_failure_message_and_log:
  assumes "provider_name (provider (service st)) = ''aws''"
    and "list_all (declared (service st)) (plugin_functions p (service st))"
    and "list_ex (matched (service st)) (plugin_functions p (service st))"
    and "build_failed (build_result p w st)"
  shows "fst (build p w st) =
           Some (Error (case error (build_result p w st) of
                          None \<Rightarrow> [] | Some e \<Rightarrow> error_toString e)) \<and>
         cli_log (snd (build p w st)) =
           cli_log st @
           [''Running containerized build'',
            ''Rust build encountered an error: '' @ template_error (error (build_result p w st)) @
            '' '' @ template_status (status (build_result p w st)) @ ''.'']"
  unfolding build_failed_result[OF assms refl] by simp

section \<open>The sample inputs\<close>

lemma build_result_node_world: "build_result p (node_world res) st = res"
  by (simp add: build_result_def dockerBuild_def node_world_def Let_def)

lemma plugin_functions_plugin_of: "plugin_functions (plugin_of c) s = getAllFunctions s"
  by (simp add: plugin_functions_def plugin_of_def)

lemma rust_service_facts:
  "provider_name (provider (service (initial rust_service))) = ''aws''"
  "list_all (declared (service (initial rust_service)))
     (plugin_functions (plugin_of c) (service (initial rust_service)))"
  "list_ex (matched (service (initial rust_service)))
     (plugin_functions (plugin_of c) (service (initial rust_service)))"
  by (simp_all add: plugin_functions_plugin_of initial_def rust_service_def getAllFunctions_def
        declared_def matched_def getFunction_def effective_runtime_def truthy_def
        RUST_RUNTIME_def)

lemma node_service_facts:
  "provider_name (provider (service (initial node_service))) = ''aws''"
  "list_all (declared (service (initial node_service)))
     (plugin_functions (plugin_of c) (service (initial node_service)))"
  "\<not> list_ex (matched (service (initial node_service)))
     (plugin_functions (plugin_of c) (service (initial node_service)))"
  by (simp_all add: plugin_functions_plugin_of initial_def node_service_def getAllFunctions_def
        declared_def matched_def getFunction_def effective_runtime_def truthy_def
        RUST_RUNTIME_def)

lemma exit_status_failed: "build_failed (exit_status n) = (n > 0)"
  by (simp add: build_failed_def exit_status_def)

section \<open>Witnesses\<close>

theorem build_other_provider_noop_witness:
  "build (plugin_of default_custom) (node_world (exit_status 0)) (initial azure_service)
     = (None, initial azure_service)"
proof -
  have "provider_name (provider (service (initial azure_service))) \<noteq> ''aws''"
    by (simp add: initial_def azure_service_def)
  then show ?thesis
    by (rule build_other_provider_noop)
qed

theorem build_no_rust_functions_witness:
  "build (plugin_of default_custom) (node_world (exit_status 0)) (initial node_service)
     = (Some (Error no_rust_message), initial node_service) \<and>
   contains RUST_RUNTIME no_rust_message"
  by (rule build_no_rust_functions[OF node_service_facts])

theorem build_failure_no_mutation_witness:
  "fst (build (plugin_of default_custom) (node_world (exit_status 101)) (initial rust_service))
     \<noteq> None \<and>
   service (snd (build (plugin_of default_custom) (node_world (exit_status 101))
                   (initial rust_service))) = rust_service"
proof -
  have "build_failed (build_result (plugin_of default_custom) (node_world (exit_status 101))
                        (initial rust_service))"
    by (simp add: build_result_node_world exit_status_failed)
  from build_failure_no_mutation[OF rust_service_facts this]
  show ?thesis by (simp add: initial_def)
qed

lemma show_int_1: "show_int 1 = ''1''"
  by code_simp

theorem build_failure_message_and_log_witness:
  "fst (build (plugin_of default_custom) (node_world (exit_status 1)) (initial rust_service))
     = Some (Error []) \<and>
   cli_log (snd (build (plugin_of default_custom) (node_world (exit_status 1))
                   (initial rust_service)))
     = [''Running containerized build'', ''Rust build encountered an error: undefined 1.'']"
proof -
  have "build_failed (build_result (plugin_of default_custom) (node_world (exit_status 1))
                        (initial rust_service))"
    by (simp add: build_result_node_world exit_status_failed)
  from build_failure_message_and_log[OF rust_service_facts this]
  show ?thesis
    by (simp add: build_result_node_world exit_status_def initial_def
          template_error_def template_status_def show_int_1)
qed

section \<open>The message of the build error\<close>

lemma build_exit_status_1:
  "fst (build (plugin_of default_custom) (node_world (exit_status 1)) (initial rust_service))
     = Some (Error [])"
proof -
  have failed: "build_failed (build_result (plugin_of default_custom)
                                (node_world (exit_status 1)) (initial rust_service))"
    by (simp add: build_result_node_world exit_status_failed)
  have no_error: "error (exit_status 1) = None"
    by (simp add: exit_status_def)
  show ?thesis
    unfolding build_failed_result[OF rust_service_facts failed refl] build_result_node_world
    by (simp add: no_error)
qed

text \<open>
  Against C6 as it is written: with exit status 1 and no spawn error, the message of the
  thrown error is empty, so the exit status does not occur in it.
\<close>

theorem build_failure_message_counterexample:
  "fst (build (plugin_of default_custom) (node_world (exit_status 1)) (initial rust_service))
     = Some (Error []) \<and>
   template_status (status (exit_status 1)) = ''1'' \<and>
   \<not> contains (template_status (status (exit_status 1))) []"
  unfolding build_exit_status_1
  by (simp add: template_status_def exit_status_def show_int_1)

section \<open>The rewriting loop after a successful build\<close>

text \<open>
  Where the global object binds no \<open>profile\<close>, a build whose subprocess succeeded ends
  in a \<open>ReferenceError\<close> at the first name in scope, and the service is as it was.
\<close>

lemma build_success_unbound_profile:
  assumes "provider_name (provider (service st)) = ''aws''"
    and "list_all (declared (service st)) (plugin_functions p (service st))"
    and "list_ex (matched (service st)) (plugin_functions p (service st))"
    and "\<not> build_failed (build_result p w st)"
    and "globals w ''profile'' = None"
  shows "build p w st =
           (Some (ReferenceError ''profile is not defined''),
            snd (dockerBuild p w (cargoPackage (custom p)) (profile (custom p)) st))"
proof -
  obtain st1 where st1:
    "st1 = snd (dockerBuild p w (cargoPackage (custom p)) (profile (custom p)) st)"
    by simp
  have found: "rustFunctionsFound (service st) (plugin_functions p (service st)) False = Inr True"
    using rustFunctionsFound_declared[OF assms(2), of False] assms(3) by simp
  have db: "dockerBuild p w (cargoPackage (custom p)) (profile (custom p)) st
              = (build_result p w st, st1)"
    by (simp add: build_result_def st1)
  obtain n ns where names: "plugin_functions p (service st) = n # ns"
    using assms(3) by (cases "plugin_functions p (service st)") auto
  obtain f where f: "getFunction (service st) n = Some f"
    using assms(2) names by (auto simp: declared_def)
  have rw: "rewrite p w (plugin_functions p (service st)) (service st)
              = (Some (ReferenceError ''profile is not defined''), service st)"
    by (simp add: names f assms(5) artifactPath_def)
  have sv: "service st1 = service st"
    by (simp add: st1)
  have "build p w st = (Some (ReferenceError ''profile is not defined''),
                        st1\<lparr>service := service st\<rparr>)"
    using assms(1,4) by (simp add: build_def found db sv rw)
  moreover have "st1\<lparr>service := service st\<rparr> = st1"
    by (simp add: st1 dockerBuild_def Let_def)
  ultimately show ?thesis by (simp add: st1)
qed

lemma build_rust_service_exit_0:
  "build (plugin_of c) (node_world (exit_status 0)) (initial rust_service) =
     (Some (ReferenceError ''profile is not defined''),
      snd (dockerBuild (plugin_of c) (node_world (exit_status 0))
             (cargoPackage (custom (plugin_of c))) (profile (custom (plugin_of c)))
             (initial rust_service)))"
proof -
  have ok: "\<not> build_failed (build_result (plugin_of c) (node_world (exit_status 0))
                               (initial rust_service))"
    by (simp add: build_result_node_world exit_status_failed)
  have unbound: "globals (node_world (exit_status 0)) ''profile'' = None"
    by (simp add: node_world_def)
  show ?thesis
    by (rule build_success_unbound_profile[OF rust_service_facts ok unbound])
qed

text \<open>
  C1, at a failing input: provider \<open>aws\<close>, the function \<open>hello\<close> with runtime
  \<open>rust\<close>, exit status 0 and no spawn error. \<open>build\<close> throws a \<open>ReferenceError\<close>;
  \<open>hello\<close> has no artifact and still the runtime \<open>rust\<close>, and the default runtime of
  the provider is still \<open>rust\<close>.
\<close>

theorem build_success_throws_ReferenceError:
  "fst (build (plugin_of default_custom) (node_world (exit_status 0)) (initial rust_service))
     = Some (ReferenceError ''profile is not defined'') \<and>
   getFunction (service (snd (build (plugin_of default_custom) (node_world (exit_status 0))
                                (initial rust_service)))) ''hello''
     = Some \<lparr>func_runtime = Some ''rust'', func_package = None\<rparr> \<and>
   provider_runtime (provider (service (snd (build (plugin_of default_custom)
                                (node_world (exit_status 0)) (initial rust_service)))))
     = Some ''rust''"
  unfolding build_rust_service_exit_0
  by (simp add: initial_def rust_service_def getFunction_def)

text \<open>
  C5, at a failing input: the configured profile is \<open>dev\<close> and the build succeeds.
  No artifact path is computed: \<open>build\<close> throws a \<open>ReferenceError\<close> and no function has
  a \<open>package\<close>.
\<close>

theorem build_dev_profile_no_artifact_path:
  "fst (build (plugin_of (default_custom\<lparr>profile := Some ''dev''\<rparr>))
          (node_world (exit_status 0)) (initial rust_service))
     = Some (ReferenceError ''profile is not defined'') \<and>
   map (\<lambda>(n, f). (n, func_package f))
     (service_functions (service (snd (build (plugin_of (default_custom\<lparr>profile := Some ''dev''\<rparr>))
          (node_world (exit_status 0)) (initial rust_service)))))
     = [(''hello'', None), (''web'', None)]"
  unfolding build_rust_service_exit_0
  by (simp add: initial_def rust_service_def)

text \<open>
  C10, at a failing input: \<open>web\<close> is in scope and declares another runtime; after the
  successful build it has no artifact.
\<close>

theorem build_success_other_runtime_no_artifact:
  "plugin_functions (plugin_of default_custom) rust_service = [''hello'', ''web''] \<and>
   getFunction (service (snd (build (plugin_of default_custom) (node_world (exit_status 0))
                                (initial rust_service)))) ''web''
     = Some \<lparr>func_runtime = Some ''nodejs18.x'', func_package = None\<rparr>"
  unfolding build_rust_service_exit_0
  by (simp add: initial_def rust_service_def getFunction_def
        plugin_functions_plugin_of getAllFunctions_def)

text \<open>
  Where both identifiers are bound, so that the path is computed, the loop gives that
  path to every declared function in scope, whatever its runtime, rewrites the runtime
  of those that declare \<open>rust\<close>, and leaves the other functions and the provider alone;
  \<open>build\<close> then rewrites the default runtime of the provider.
\<close>

lemma rewrite_func_idem: "rewrite_func path (rewrite_func path f) = rewrite_func path f"
  by (simp add: rewrite_func_def Let_def RUST_RUNTIME_def BASE_RUNTIME_def)

lemma getFunction_setFunction:
  "getFunction (setFunction s a f) n = (if n = a then Some f else getFunction s n)"
  by (simp add: getFunction_def setFunction_def update_conv')

lemma provider_setFunction [simp]: "provider (setFunction s a f) = provider s"
  by (simp add: setFunction_def)

lemma rewrite_bound:
  assumes "artifactPath p w = Inr path"
    and "list_all (declared s) names"
  shows "fst (rewrite p w names s) = None \<and>
         provider (snd (rewrite p w names s)) = provider s \<and>
         getFunction (snd (rewrite p w names s)) n =
           (if n \<in> set names then map_option (rewrite_func path) (getFunction s n)
            else getFunction s n)"
  using assms(2)
proof (induction names arbitrary: s)
  case Nil
  show ?case by simp
next
  case (Cons a names)
  then obtain f where f: "getFunction s a = Some f"
    by (auto simp: declared_def)
  let ?s = "setFunction s a (rewrite_func path f)"
  have "list_all (declared ?s) names"
    using Cons.prems by (auto simp: declared_def getFunction_setFunction list_all_iff)
  from Cons.IH[OF this]
  show ?case
    by (auto simp: f assms(1) getFunction_setFunction rewrite_func_idem)
qed

lemma build_success_bound:
  assumes "provider_name (provider (service st)) = ''aws''"
    and "list_all (declared (service st)) (plugin_functions p (service st))"
    and "list_ex (matched (service st)) (plugin_functions p (service st))"
    and "\<not> build_failed (build_result p w st)"
    and "artifactPath p w = Inr path"
  shows "fst (build p w st) = None \<and>
         getFunction (service (snd (build p w st))) n =
           (if n \<in> set (plugin_functions p (service st))
            then map_option (rewrite_func path) (getFunction (service st) n)
            else getFunction (service st) n) \<and>
         provider_runtime (provider (service (snd (build p w st)))) =
           (if provider_runtime (provider (service st)) = Some RUST_RUNTIME
            then Some BASE_RUNTIME else provider_runtime (provider (service st)))"
proof -
  obtain st1 where st1:
    "st1 = snd (dockerBuild p w (cargoPackage (custom p)) (profile (custom p)) st)"
    by simp
  have found: "rustFunctionsFound (service st) (plugin_functions p (service st)) False = Inr True"
    using rustFunctionsFound_declared[OF assms(2), of False] assms(3) by simp
  have db: "dockerBuild p w (cargoPackage (custom p)) (profile (custom p)) st
              = (build_result p w st, st1)"
    by (simp add: build_result_def st1)
  have sv: "service st1 = service st"
    by (simp add: st1)
  obtain s2 where rw: "rewrite p w (plugin_functions p (service st)) (service st) = (None, s2)"
    using rewrite_bound[OF assms(5,2)] by (metis prod.collapse)
  have s2: "provider s2 = provider (service st)"
    "getFunction s2 n =
       (if n \<in> set (plugin_functions p (service st))
        then map_option (rewrite_func path) (getFunction (service st) n)
        else getFunction (service st) n)"
    using rewrite_bound[OF assms(5,2), of n] rw by simp_all
  have b: "build p w st =
     (None, st1\<lparr>service :=
        (if provider_runtime (provider s2) = Some RUST_RUNTIME
         then s2\<lparr>provider := (provider s2)\<lparr>provider_runtime := Some BASE_RUNTIME\<rparr>\<rparr>
         else s2)\<rparr>)"
    using assms(1,4) by (simp add: build_def found db sv rw)
  show ?thesis
    unfolding b using s2 by (simp add: getFunction_def)
qed

text \<open>
  Where the global object does bind both identifiers, the directory follows the global
  \<open>profile\<close> and not the configured one: configured \<open>dev\<close>, directory \<open>release\<close>.
\<close>

lemma artifact_path_ignores_configured_profile:
  "rewrite (plugin_of (default_custom\<lparr>profile := Some ''dev''\<rparr>))
     ((node_world (exit_status 0))\<lparr>globals := [''profile'' \<mapsto> JUndefined, ''binary'' \<mapsto> JStr ''hello'']\<rparr>)
     [''hello'']
     rust_service
   = (None, rust_service\<lparr>service_functions :=
        [(''hello'', \<lparr>func_runtime = Some ''provided.al2'',
                     func_package = Some \<lparr>artifact = Some ''/srv/app/target/lambda/release/hello.zip''\<rparr>\<rparr>),
         (''web'', \<lparr>func_runtime = Some ''nodejs18.x'', func_package = None\<rparr>)]\<rparr>)"
  by (simp add: plugin_of_def node_world_def rust_service_def getFunction_def setFunction_def
        artifactPath_def rewrite_func_def join_slash_def template_jsval_def
        RUST_RUNTIME_def BASE_RUNTIME_def Let_def)

end
